theory Spec2Isabelle
  imports Main "HOL-Library.Log_Nat"
begin

section \<open>Python values and exceptions\<close>

text \<open>
  The query builder (\<^verbatim>\<open>query_builder.py\<close>) and the client (\<^verbatim>\<open>grpc_client.py\<close>) are
  Python classes over protobuf messages. A method that can raise returns a sum whose
  left injection is the exception; a method that mutates \<^verbatim>\<open>self\<close> or an argument
  returns the mutated object.
\<close>

datatype py_error =
    OverflowError
  | RuntimeError string
  | AttributeError
  | RpcError string

text \<open>
  A Python \<^verbatim>\<open>float\<close> and the protobuf \<^verbatim>\<open>double\<close> are IEEE-754 binary64 values:
  \<open>Finite m e\<close> stands for \<open>m * 2 ^ e\<close>.
\<close>

datatype double = Finite int int | PosInf | NegInf | NaN

text \<open>
  \<^verbatim>\<open>float(n)\<close> for a Python \<^verbatim>\<open>int\<close>: the magnitude is rounded to 53 significant
  bits, ties to even, and the conversion raises \<^verbatim>\<open>OverflowError\<close> when the rounded
  value does not fit a binary64 (it reaches \<open>2 ^ 1024\<close>).
\<close>

definition float_of_int :: "int \<Rightarrow> py_error + double" where
  "float_of_int n =
     (let a = \<bar>n\<bar>; k = bitlen a in
      if k \<le> 53 then Inr (Finite n 0)
      else
        let s = nat (k - 53);
            q = a div 2 ^ s;
            r = a mod 2 ^ s;
            half = 2 ^ (s - 1);
            q' = (if half < r \<or> (r = half \<and> odd q) then q + 1 else q)
        in if 2 ^ 1024 \<le> q' * 2 ^ s then Inl OverflowError
           else Inr (Finite (sgn n * q') (int s)))"

text \<open>
  \<^verbatim>\<open>datetime\<close>: the calendar fields and, for an aware value, the UTC offset in minutes
  (\<open>None\<close> for a naive value).
\<close>

record datetime =
  dt_year :: nat
  dt_month :: nat
  dt_day :: nat
  dt_hour :: nat
  dt_minute :: nat
  dt_second :: nat
  dt_microsecond :: nat
  dt_utcoffset :: "int option"

text \<open>
  \<^verbatim>\<open>datetime.isoformat()\<close>: \<^verbatim>\<open>YYYY-MM-DDTHH:MM:SS\<close>, then \<^verbatim>\<open>.ffffff\<close> when the
  microsecond is not zero, then \<^verbatim>\<open>+HH:MM\<close> or \<^verbatim>\<open>-HH:MM\<close> for an aware value.
  \<open>zpad w n\<close> is \<open>n\<close> in \<open>w\<close> decimal digits, zero-padded (the fields of a
  \<^verbatim>\<open>datetime\<close> never need more).
\<close>

definition digit :: "nat \<Rightarrow> char" where
  "digit n = ''0123456789'' ! (n mod 10)"

fun zpad :: "nat \<Rightarrow> nat \<Rightarrow> string" where
  "zpad 0 n = []"
| "zpad (Suc w) n = zpad w (n div 10) @ [digit n]"

definition isoformat :: "datetime \<Rightarrow> string" where
  "isoformat d =
     zpad 4 (dt_year d) @ ''-'' @ zpad 2 (dt_month d) @ ''-'' @ zpad 2 (dt_day d) @ ''T'' @
     zpad 2 (dt_hour d) @ '':'' @ zpad 2 (dt_minute d) @ '':'' @ zpad 2 (dt_second d) @
     (if dt_microsecond d \<noteq> 0 then ''.'' @ zpad 6 (dt_microsecond d) else []) @
     (case dt_utcoffset d of
        None \<Rightarrow> []
      | Some m \<Rightarrow> (if m < 0 then ''-'' else ''+'') @
          zpad 2 (nat \<bar>m\<bar> div 60) @ '':'' @ zpad 2 (nat \<bar>m\<bar> mod 60))"

text \<open>
  The native values a caller passes as filter operands (\<^verbatim>\<open>value: Any\<close>).
  \<open>PyOther s\<close> is any other object, with \<open>s\<close> the text \<^verbatim>\<open>str(value)\<close> returns.
\<close>

datatype py_value =
    PyBool bool
  | PyInt int
  | PyFloat double
  | PyStr string
  | PyDatetime datetime
  | PyNone
  | PyOther string

section \<open>Protobuf messages\<close>

text \<open>
  A message-typed field has presence and is an \<open>option\<close>; a scalar field holds its
  default (\<open>0\<close>, the empty string, \<open>False\<close>, the enum's zero value) until it is set; a
  repeated field is a list. A message object is truthy in Python whatever it holds, so
  \<^verbatim>\<open>if not self._pagination\<close> tests for \<^verbatim>\<open>None\<close>.
\<close>

datatype pb_value =
    NullValue
  | NumberValue double
  | StringValue string
  | BoolValue bool

datatype operator =
    OPERATOR_UNSPECIFIED
  | OPERATOR_EQ
  | OPERATOR_NE
  | OPERATOR_LT
  | OPERATOR_LTE
  | OPERATOR_GT
  | OPERATOR_GTE
  | OPERATOR_IN
  | OPERATOR_NOT_IN
  | OPERATOR_CONTAINS
  | OPERATOR_STARTS_WITH
  | OPERATOR_ENDS_WITH
  | OPERATOR_MATCHES
  | OPERATOR_IS_NULL
  | OPERATOR_IS_NOT_NULL
  | OPERATOR_ARRAY_CONTAINS

record condition =
  cond_field :: string
  cond_operator :: operator
  cond_value :: "pb_value option"
  cond_values :: "pb_value list"
  cond_case_sensitive :: bool

datatype filter =
    Condition condition
  | And "filter list"
  | Or "filter list"
  | Not filter

datatype sort_direction =
    SORT_DIRECTION_UNSPECIFIED
  | SORT_DIRECTION_ASC
  | SORT_DIRECTION_DESC

datatype null_ordering =
    NULL_ORDERING_UNSPECIFIED
  | NULL_ORDERING_NULLS_FIRST
  | NULL_ORDERING_NULLS_LAST

record sort =
  sort_field :: string
  sort_direction :: sort_direction
  sort_nulls :: null_ordering

record projection =
  proj_include :: "string list"
  proj_exclude :: "string list"

record pagination =
  page_size :: int
  pg_cursor :: string
  pg_offset :: int

datatype aggregate_function =
    AGGREGATE_FUNCTION_UNSPECIFIED
  | AGGREGATE_FUNCTION_COUNT
  | AGGREGATE_FUNCTION_SUM
  | AGGREGATE_FUNCTION_AVG
  | AGGREGATE_FUNCTION_MIN
  | AGGREGATE_FUNCTION_MAX

record aggregate =
  agg_function :: aggregate_function
  agg_field :: string
  agg_alias :: string

record aggregation =
  agg_group_by :: "string list"
  aggregates :: "aggregate list"
  agg_having :: "filter option"

datatype search_type =
    SEARCH_TYPE_UNSPECIFIED
  | SEARCH_TYPE_FULL_TEXT
  | SEARCH_TYPE_SEMANTIC

record search =
  search_query :: string
  search_type :: search_type
  search_fields :: "string list"
  search_vector_field :: string
  search_embedding :: "double list"
  search_min_score :: double

datatype join_type = JOIN_TYPE_UNSPECIFIED | JOIN_TYPE_INNER | JOIN_TYPE_LEFT_OUTER

record relation =
  rel_entity :: string
  rel_alias :: string
  rel_type :: join_type
  rel_on :: "filter option"
  rel_eager :: bool

datatype consistency_level =
    CONSISTENCY_LEVEL_UNSPECIFIED
  | CONSISTENCY_LEVEL_EVENTUAL
  | CONSISTENCY_LEVEL_STRONG
  | CONSISTENCY_LEVEL_LINEARIZABLE

record query_options =
  opt_timeout_ms :: int
  opt_count_total :: bool
  opt_consistency :: consistency_level
  opt_explain :: bool

record query =
  q_entity :: string
  q_filter :: "filter option"
  q_sort :: "sort list"
  q_projection :: "projection option"
  q_pagination :: "pagination option"
  q_aggregation :: "aggregation option"
  q_search :: "search option"
  q_relation :: "relation list"
  q_options :: "query_options option"

text \<open>The messages as their constructors leave them when no field is given.\<close>

definition Pagination :: pagination where
  "Pagination = \<lparr>page_size = 0, pg_cursor = [], pg_offset = 0\<rparr>"

definition Aggregation :: aggregation where
  "Aggregation = \<lparr>agg_group_by = [], aggregates = [], agg_having = None\<rparr>"

definition QueryOptions :: query_options where
  "QueryOptions = \<lparr>opt_timeout_ms = 0, opt_count_total = False,
     opt_consistency = CONSISTENCY_LEVEL_UNSPECIFIED, opt_explain = False\<rparr>"

definition Query :: "string \<Rightarrow> query" where
  "Query entity = \<lparr>q_entity = entity, q_filter = None, q_sort = [], q_projection = None,
     q_pagination = None, q_aggregation = None, q_search = None, q_relation = [],
     q_options = None\<rparr>"

section \<open>QueryBuilder\<close>

record builder =
  b_entity :: string
  b_filters :: "filter list"
  b_sorts :: "sort list"
  b_projection :: "projection option"
  b_pagination :: "pagination option"
  b_aggregation :: "aggregation option"
  b_search :: "search option"
  b_relations :: "relation list"
  b_options :: "query_options option"

text \<open>\<^verbatim>\<open>QueryBuilder.__init__\<close>\<close>

definition QueryBuilder :: "string \<Rightarrow> builder" where
  "QueryBuilder entity = \<lparr>b_entity = entity, b_filters = [], b_sorts = [],
     b_projection = None, b_pagination = None, b_aggregation = None, b_search = None,
     b_relations = [], b_options = None\<rparr>"

subsection \<open>Helper methods\<close>

text \<open>\<^verbatim>\<open>_to_proto_value\<close>: the \<^verbatim>\<open>isinstance\<close> chain in the source's order;
  \<^verbatim>\<open>number_value\<close> is a \<^verbatim>\<open>double\<close> field, so an \<^verbatim>\<open>int\<close> is converted as
  \<^verbatim>\<open>float(value)\<close> is.\<close>

primrec to_proto_value :: "py_value \<Rightarrow> py_error + pb_value" where
  "to_proto_value (PyBool b) = Inr (BoolValue b)"
| "to_proto_value (PyInt n) =
     (case float_of_int n of Inl e \<Rightarrow> Inl e | Inr d \<Rightarrow> Inr (NumberValue d))"
| "to_proto_value (PyFloat d) = Inr (NumberValue d)"
| "to_proto_value (PyStr s) = Inr (StringValue s)"
| "to_proto_value (PyDatetime d) = Inr (StringValue (isoformat d @ ''Z''))"
| "to_proto_value PyNone = Inr NullValue"
| "to_proto_value (PyOther s) = Inr (StringValue s)"

text \<open>The list comprehension \<^verbatim>\<open>[self._to_proto_value(v) for v in values]\<close>: the first
  element that raises ends it.\<close>

primrec to_proto_values :: "py_value list \<Rightarrow> py_error + pb_value list" where
  "to_proto_values [] = Inr []"
| "to_proto_values (v # vs) =
     (case to_proto_value v of
        Inl e \<Rightarrow> Inl e
      | Inr x \<Rightarrow> (case to_proto_values vs of Inl e \<Rightarrow> Inl e | Inr xs \<Rightarrow> Inr (x # xs)))"

text \<open>\<^verbatim>\<open>a or d\<close> for an optional string: \<^verbatim>\<open>None\<close> and the empty string are falsy.\<close>

definition py_or :: "string option \<Rightarrow> string \<Rightarrow> string" where
  "py_or a d = (case a of None \<Rightarrow> d | Some s \<Rightarrow> if s = [] then d else s)"

definition add_condition :: "builder \<Rightarrow> string \<Rightarrow> operator \<Rightarrow> py_value \<Rightarrow> py_error + builder" where
  "add_condition b field op v =
     (case to_proto_value v of
        Inl e \<Rightarrow> Inl e
      | Inr x \<Rightarrow> Inr (b\<lparr>b_filters := b_filters b @
          [Condition \<lparr>cond_field = field, cond_operator = op, cond_value = Some x,
             cond_values = [], cond_case_sensitive = False\<rparr>]\<rparr>))"

definition add_sort :: "builder \<Rightarrow> string \<Rightarrow> sort_direction \<Rightarrow> string \<Rightarrow> builder" where
  "add_sort b field direction nulls =
     b\<lparr>b_sorts := b_sorts b @
       [\<lparr>sort_field = field, sort_direction = direction,
         sort_nulls = (if nulls = ''first'' then NULL_ORDERING_NULLS_FIRST
                       else if nulls = ''last'' then NULL_ORDERING_NULLS_LAST
                       else NULL_ORDERING_UNSPECIFIED)\<rparr>]\<rparr>"

definition add_aggregate ::
  "builder \<Rightarrow> aggregate_function \<Rightarrow> string option \<Rightarrow> string option \<Rightarrow> builder" where
  "add_aggregate b function field alias =
     (let a = (case b_aggregation b of None \<Rightarrow> Aggregation | Some a \<Rightarrow> a);
          agg = \<lparr>agg_function = function, agg_field = py_or field [],
                 agg_alias = py_or alias ''result''\<rparr>
      in b\<lparr>b_aggregation := Some (a\<lparr>aggregates := aggregates a @ [agg]\<rparr>)\<rparr>)"

subsection \<open>Filter methods\<close>

definition filter_eq :: "builder \<Rightarrow> string \<Rightarrow> py_value \<Rightarrow> py_error + builder" where
  "filter_eq b field v = add_condition b field OPERATOR_EQ v"

definition filter_ne :: "builder \<Rightarrow> string \<Rightarrow> py_value \<Rightarrow> py_error + builder" where
  "filter_ne b field v = add_condition b field OPERATOR_NE v"

definition filter_lt :: "builder \<Rightarrow> string \<Rightarrow> py_value \<Rightarrow> py_error + builder" where
  "filter_lt b field v = add_condition b field OPERATOR_LT v"

definition filter_lte :: "builder \<Rightarrow> string \<Rightarrow> py_value \<Rightarrow> py_error + builder" where
  "filter_lte b field v = add_condition b field OPERATOR_LTE v"

definition filter_gt :: "builder \<Rightarrow> string \<Rightarrow> py_value \<Rightarrow> py_error + builder" where
  "filter_gt b field v = add_condition b field OPERATOR_GT v"

definition filter_gte :: "builder \<Rightarrow> string \<Rightarrow> py_value \<Rightarrow> py_error + builder" where
  "filter_gte b field v = add_condition b field OPERATOR_GTE v"

definition filter_in :: "builder \<Rightarrow> string \<Rightarrow> py_value list \<Rightarrow> py_error + builder" where
  "filter_in b field vs =
     (case to_proto_values vs of
        Inl e \<Rightarrow> Inl e
      | Inr xs \<Rightarrow> Inr (b\<lparr>b_filters := b_filters b @
          [Condition \<lparr>cond_field = field, cond_operator = OPERATOR_IN, cond_value = None,
             cond_values = xs, cond_case_sensitive = False\<rparr>]\<rparr>))"

definition filter_not_in :: "builder \<Rightarrow> string \<Rightarrow> py_value list \<Rightarrow> py_error + builder" where
  "filter_not_in b field vs =
     (case to_proto_values vs of
        Inl e \<Rightarrow> Inl e
      | Inr xs \<Rightarrow> Inr (b\<lparr>b_filters := b_filters b @
          [Condition \<lparr>cond_field = field, cond_operator = OPERATOR_NOT_IN, cond_value = None,
             cond_values = xs, cond_case_sensitive = False\<rparr>]\<rparr>))"

definition filter_contains :: "builder \<Rightarrow> string \<Rightarrow> string \<Rightarrow> bool \<Rightarrow> builder" where
  "filter_contains b field v case_sensitive =
     b\<lparr>b_filters := b_filters b @
       [Condition \<lparr>cond_field = field, cond_operator = OPERATOR_CONTAINS,
          cond_value = Some (StringValue v), cond_values = [],
          cond_case_sensitive = case_sensitive\<rparr>]\<rparr>"

definition filter_starts_with :: "builder \<Rightarrow> string \<Rightarrow> string \<Rightarrow> py_error + builder" where
  "filter_starts_with b field v = add_condition b field OPERATOR_STARTS_WITH (PyStr v)"

definition filter_ends_with :: "builder \<Rightarrow> string \<Rightarrow> string \<Rightarrow> py_error + builder" where
  "filter_ends_with b field v = add_condition b field OPERATOR_ENDS_WITH (PyStr v)"

definition filter_matches :: "builder \<Rightarrow> string \<Rightarrow> string \<Rightarrow> py_error + builder" where
  "filter_matches b field pattern = add_condition b field OPERATOR_MATCHES (PyStr pattern)"

definition filter_is_null :: "builder \<Rightarrow> string \<Rightarrow> builder" where
  "filter_is_null b field =
     b\<lparr>b_filters := b_filters b @
       [Condition \<lparr>cond_field = field, cond_operator = OPERATOR_IS_NULL, cond_value = None,
          cond_values = [], cond_case_sensitive = False\<rparr>]\<rparr>"

definition filter_is_not_null :: "builder \<Rightarrow> string \<Rightarrow> builder" where
  "filter_is_not_null b field =
     b\<lparr>b_filters := b_filters b @
       [Condition \<lparr>cond_field = field, cond_operator = OPERATOR_IS_NOT_NULL,
          cond_value = None, cond_values = [], cond_case_sensitive = False\<rparr>]\<rparr>"

definition filter_array_contains :: "builder \<Rightarrow> string \<Rightarrow> py_value \<Rightarrow> py_error + builder" where
  "filter_array_contains b field v = add_condition b field OPERATOR_ARRAY_CONTAINS v"

subsection \<open>Sorting, projection and pagination methods\<close>

definition sort_asc :: "builder \<Rightarrow> string \<Rightarrow> string \<Rightarrow> builder" where
  "sort_asc b field nulls = add_sort b field SORT_DIRECTION_ASC nulls"

definition sort_desc :: "builder \<Rightarrow> string \<Rightarrow> string \<Rightarrow> builder" where
  "sort_desc b field nulls = add_sort b field SORT_DIRECTION_DESC nulls"

definition include_proj :: "builder \<Rightarrow> string list \<Rightarrow> builder" where
  "include_proj b flds = b\<lparr>b_projection := Some \<lparr>proj_include = flds, proj_exclude = []\<rparr>\<rparr>"

definition exclude_proj :: "builder \<Rightarrow> string list \<Rightarrow> builder" where
  "exclude_proj b flds = b\<lparr>b_projection := Some \<lparr>proj_include = [], proj_exclude = flds\<rparr>\<rparr>"

definition limit :: "builder \<Rightarrow> int \<Rightarrow> builder" where
  "limit b n =
     (let p = (case b_pagination b of None \<Rightarrow> Pagination | Some p \<Rightarrow> p)
      in b\<lparr>b_pagination := Some (p\<lparr>page_size := n\<rparr>)\<rparr>)"

definition cursor :: "builder \<Rightarrow> string \<Rightarrow> builder" where
  "cursor b c =
     (let p = (case b_pagination b of None \<Rightarrow> Pagination | Some p \<Rightarrow> p)
      in b\<lparr>b_pagination := Some (p\<lparr>pg_cursor := c\<rparr>)\<rparr>)"

definition offset :: "builder \<Rightarrow> int \<Rightarrow> builder" where
  "offset b n =
     (let p = (case b_pagination b of None \<Rightarrow> Pagination | Some p \<Rightarrow> p)
      in b\<lparr>b_pagination := Some (p\<lparr>pg_offset := n\<rparr>)\<rparr>)"

subsection \<open>Search and aggregation methods\<close>

definition search_fulltext :: "builder \<Rightarrow> string \<Rightarrow> string list option \<Rightarrow> double \<Rightarrow> builder" where
  "search_fulltext b qs flds min_score =
     b\<lparr>b_search := Some \<lparr>search_query = qs, search_type = SEARCH_TYPE_FULL_TEXT,
        search_fields = (case flds of None \<Rightarrow> [] | Some fs \<Rightarrow> fs),
        search_vector_field = [], search_embedding = [],
        search_min_score = min_score\<rparr>\<rparr>"

definition search_semantic ::
  "builder \<Rightarrow> string option \<Rightarrow> double list option \<Rightarrow> string \<Rightarrow> double \<Rightarrow> builder" where
  "search_semantic b qs embedding vector_field min_score =
     b\<lparr>b_search := Some \<lparr>search_query = py_or qs [], search_type = SEARCH_TYPE_SEMANTIC,
        search_fields = [], search_vector_field = vector_field,
        search_embedding = (case embedding of None \<Rightarrow> [] | Some es \<Rightarrow> es),
        search_min_score = min_score\<rparr>\<rparr>"

definition group_by :: "builder \<Rightarrow> string list \<Rightarrow> builder" where
  "group_by b flds =
     (let a = (case b_aggregation b of None \<Rightarrow> Aggregation | Some a \<Rightarrow> a)
      in b\<lparr>b_aggregation := Some (a\<lparr>agg_group_by := agg_group_by a @ flds\<rparr>)\<rparr>)"

definition count_agg :: "builder \<Rightarrow> string \<Rightarrow> builder" where
  "count_agg b alias = add_aggregate b AGGREGATE_FUNCTION_COUNT None (Some alias)"

definition sum_agg :: "builder \<Rightarrow> string \<Rightarrow> string option \<Rightarrow> builder" where
  "sum_agg b field alias =
     add_aggregate b AGGREGATE_FUNCTION_SUM (Some field) (Some (py_or alias (''sum_'' @ field)))"

definition avg_agg :: "builder \<Rightarrow> string \<Rightarrow> string option \<Rightarrow> builder" where
  "avg_agg b field alias =
     add_aggregate b AGGREGATE_FUNCTION_AVG (Some field) (Some (py_or alias (''avg_'' @ field)))"

definition min_agg :: "builder \<Rightarrow> string \<Rightarrow> string option \<Rightarrow> builder" where
  "min_agg b field alias =
     add_aggregate b AGGREGATE_FUNCTION_MIN (Some field) (Some (py_or alias (''min_'' @ field)))"

definition max_agg :: "builder \<Rightarrow> string \<Rightarrow> string option \<Rightarrow> builder" where
  "max_agg b field alias =
     add_aggregate b AGGREGATE_FUNCTION_MAX (Some field) (Some (py_or alias (''max_'' @ field)))"

subsection \<open>Options methods\<close>

definition timeout :: "builder \<Rightarrow> int \<Rightarrow> builder" where
  "timeout b ms =
     (let opts = (case b_options b of None \<Rightarrow> QueryOptions | Some opts \<Rightarrow> opts)
      in b\<lparr>b_options := Some (opts\<lparr>opt_timeout_ms := ms\<rparr>)\<rparr>)"

definition explain :: "builder \<Rightarrow> bool \<Rightarrow> builder" where
  "explain b enabled =
     (let opts = (case b_options b of None \<Rightarrow> QueryOptions | Some opts \<Rightarrow> opts)
      in b\<lparr>b_options := Some (opts\<lparr>opt_explain := enabled\<rparr>)\<rparr>)"

definition count_total :: "builder \<Rightarrow> bool \<Rightarrow> builder" where
  "count_total b enabled =
     (let opts = (case b_options b of None \<Rightarrow> QueryOptions | Some opts \<Rightarrow> opts)
      in b\<lparr>b_options := Some (opts\<lparr>opt_count_total := enabled\<rparr>)\<rparr>)"

definition level_map :: "string \<Rightarrow> consistency_level option" where
  "level_map level =
     (if level = ''eventual'' then Some CONSISTENCY_LEVEL_EVENTUAL
      else if level = ''strong'' then Some CONSISTENCY_LEVEL_STRONG
      else if level = ''linearizable'' then Some CONSISTENCY_LEVEL_LINEARIZABLE
      else None)"

definition consistency :: "builder \<Rightarrow> string \<Rightarrow> builder" where
  "consistency b level =
     (let opts = (case b_options b of None \<Rightarrow> QueryOptions | Some opts \<Rightarrow> opts)
      in b\<lparr>b_options := Some (opts\<lparr>opt_consistency :=
           (case level_map level of None \<Rightarrow> CONSISTENCY_LEVEL_STRONG | Some l \<Rightarrow> l)\<rparr>)\<rparr>)"

subsection \<open>build\<close>

text \<open>
  \<^verbatim>\<open>build\<close> reads the builder and assigns to none of its attributes; it returns the
  new Query together with the builder as the call leaves it. The messages are copied
  into the Query (\<^verbatim>\<open>CopyFrom\<close>, \<^verbatim>\<open>extend\<close>), so the Query shares nothing with the
  builder. The source has no \<^verbatim>\<open>raise\<close> on any path.
\<close>

definition build :: "builder \<Rightarrow> py_error + query \<times> builder" where
  "build b =
     (let q0 = Query (b_entity b);
          q1 = (if b_filters b \<noteq> [] then
                  (if length (b_filters b) = 1 then q0\<lparr>q_filter := Some (b_filters b ! 0)\<rparr>
                   else q0\<lparr>q_filter := Some (And (b_filters b))\<rparr>)
                else q0);
          q2 = (if b_sorts b \<noteq> [] then q1\<lparr>q_sort := q_sort q1 @ b_sorts b\<rparr> else q1);
          q3 = (case b_projection b of None \<Rightarrow> q2 | Some p \<Rightarrow> q2\<lparr>q_projection := Some p\<rparr>);
          q4 = (case b_pagination b of
                  Some p \<Rightarrow> q3\<lparr>q_pagination := Some p\<rparr>
                | None \<Rightarrow>
                    (if b_aggregation b = None
                     then q3\<lparr>q_pagination := Some (Pagination\<lparr>page_size := 50\<rparr>)\<rparr>
                     else q3));
          q5 = (case b_aggregation b of None \<Rightarrow> q4 | Some a \<Rightarrow> q4\<lparr>q_aggregation := Some a\<rparr>);
          q6 = (case b_search b of None \<Rightarrow> q5 | Some s \<Rightarrow> q5\<lparr>q_search := Some s\<rparr>);
          q7 = (if b_relations b \<noteq> [] then q6\<lparr>q_relation := q_relation q6 @ b_relations b\<rparr>
                else q6);
          q8 = (case b_options b of None \<Rightarrow> q7 | Some opts \<Rightarrow> q7\<lparr>q_options := Some opts\<rparr>)
      in Inr (q8, b))"

subsection \<open>Call sequences\<close>

text \<open>
  A fluent chain \<^verbatim>\<open>QueryBuilder(e).m1(...).m2(...)\<close> is a list of calls, run from left to
  right; a call that raises ends the chain.
\<close>

datatype call =
    Filter_eq string py_value
  | Filter_ne string py_value
  | Filter_lt string py_value
  | Filter_lte string py_value
  | Filter_gt string py_value
  | Filter_gte string py_value
  | Filter_in string "py_value list"
  | Filter_not_in string "py_value list"
  | Filter_contains string string bool
  | Filter_starts_with string string
  | Filter_ends_with string string
  | Filter_matches string string
  | Filter_is_null string
  | Filter_is_not_null string
  | Filter_array_contains string py_value
  | Sort_asc string string
  | Sort_desc string string
  | Include "string list"
  | Exclude "string list"
  | Limit int
  | Cursor string
  | Offset int
  | Search_fulltext string "string list option" double
  | Search_semantic "string option" "double list option" string double
  | Group_by "string list"
  | Count string
  | Sum string "string option"
  | Avg string "string option"
  | Min string "string option"
  | Max string "string option"
  | Timeout int
  | Explain bool
  | Count_total bool
  | Consistency string

primrec apply_call :: "builder \<Rightarrow> call \<Rightarrow> py_error + builder" where
  "apply_call b (Filter_eq f v) = filter_eq b f v"
| "apply_call b (Filter_ne f v) = filter_ne b f v"
| "apply_call b (Filter_lt f v) = filter_lt b f v"
| "apply_call b (Filter_lte f v) = filter_lte b f v"
| "apply_call b (Filter_gt f v) = filter_gt b f v"
| "apply_call b (Filter_gte f v) = filter_gte b f v"
| "apply_call b (Filter_in f vs) = filter_in b f vs"
| "apply_call b (Filter_not_in f vs) = filter_not_in b f vs"
| "apply_call b (Filter_contains f v cs) = Inr (filter_contains b f v cs)"
| "apply_call b (Filter_starts_with f v) = filter_starts_with b f v"
| "apply_call b (Filter_ends_with f v) = filter_ends_with b f v"
| "apply_call b (Filter_matches f v) = filter_matches b f v"
| "apply_call b (Filter_is_null f) = Inr (filter_is_null b f)"
| "apply_call b (Filter_is_not_null f) = Inr (filter_is_not_null b f)"
| "apply_call b (Filter_array_contains f v) = filter_array_contains b f v"
| "apply_call b (Sort_asc f n) = Inr (sort_asc b f n)"
| "apply_call b (Sort_desc f n) = Inr (sort_desc b f n)"
| "apply_call b (Include fs) = Inr (include_proj b fs)"
| "apply_call b (Exclude fs) = Inr (exclude_proj b fs)"
| "apply_call b (Limit n) = Inr (limit b n)"
| "apply_call b (Cursor c) = Inr (cursor b c)"
| "apply_call b (Offset n) = Inr (offset b n)"
| "apply_call b (Search_fulltext qs fs m) = Inr (search_fulltext b qs fs m)"
| "apply_call b (Search_semantic qs es vf m) = Inr (search_semantic b qs es vf m)"
| "apply_call b (Group_by fs) = Inr (group_by b fs)"
| "apply_call b (Count a) = Inr (count_agg b a)"
| "apply_call b (Sum f a) = Inr (sum_agg b f a)"
| "apply_call b (Avg f a) = Inr (avg_agg b f a)"
| "apply_call b (Min f a) = Inr (min_agg b f a)"
| "apply_call b (Max f a) = Inr (max_agg b f a)"
| "apply_call b (Timeout ms) = Inr (timeout b ms)"
| "apply_call b (Explain en) = Inr (explain b en)"
| "apply_call b (Count_total en) = Inr (count_total b en)"
| "apply_call b (Consistency l) = Inr (consistency b l)"

primrec run :: "builder \<Rightarrow> call list \<Rightarrow> py_error + builder" where
  "run b [] = Inr b"
| "run b (c # cs) = (case apply_call b c of Inl e \<Rightarrow> Inl e | Inr b' \<Rightarrow> run b' cs)"

section \<open>QueryClient\<close>

text \<open>
  The dictionaries the client reads: a response has the keys \<^verbatim>\<open>results\<close>,
  \<^verbatim>\<open>pagination\<close> and \<^verbatim>\<open>explain\<close>, each of which may be missing; \<^verbatim>\<open>dict.get\<close> of a
  missing key is \<^verbatim>\<open>None\<close>.
\<close>

record page_dict =
  totalCount :: "int option"
  pageSize :: "int option"
  hasMore :: "bool option"
  nextCursor :: "string option"

type_synonym json_dict = "(string \<times> string) list"

record response =
  resp_results :: "json_dict list"
  resp_pagination :: "page_dict option"
  resp_explain :: "json_dict option"

datatype stub = QueryServiceStub

record channel =
  ch_target :: string
  ch_closed :: bool

record client =
  cl_host :: string
  cl_tenant_id :: string
  cl_timeout :: int
  cl_channel :: "channel option"
  cl_stub :: "stub option"

text \<open>\<^verbatim>\<open>QueryClient.__init__\<close>, \<^verbatim>\<open>connect\<close> (the line that would create the stub is a
  comment in the source) and \<^verbatim>\<open>close\<close>.\<close>

definition QueryClient :: "string \<Rightarrow> string \<Rightarrow> int \<Rightarrow> client" where
  "QueryClient host tenant_id tmo =
     \<lparr>cl_host = host, cl_tenant_id = tenant_id, cl_timeout = tmo, cl_channel = None,
      cl_stub = None\<rparr>"

definition connect :: "client \<Rightarrow> client" where
  "connect c = c\<lparr>cl_channel := Some \<lparr>ch_target = cl_host c, ch_closed = False\<rparr>\<rparr>"

definition close :: "client \<Rightarrow> client" where
  "close c =
     (case cl_channel c of
        None \<Rightarrow> c
      | Some ch \<Rightarrow> c\<lparr>cl_channel := Some (ch\<lparr>ch_closed := True\<rparr>)\<rparr>)"

text \<open>Reading a scalar through an unset message field gives the default and sets nothing.\<close>

definition get_pagination :: "query \<Rightarrow> pagination" where
  "get_pagination q = (case q_pagination q of None \<Rightarrow> Pagination | Some p \<Rightarrow> p)"

definition get_options :: "query \<Rightarrow> query_options" where
  "get_options q = (case q_options q of None \<Rightarrow> QueryOptions | Some opts \<Rightarrow> opts)"

definition mock_response :: "query \<Rightarrow> response" where
  "mock_response q =
     \<lparr>resp_results = [[(''id'', ''1''), (''name'', ''Item 1'')],
                       [(''id'', ''2''), (''name'', ''Item 2'')]],
      resp_pagination = Some
        \<lparr>totalCount = Some 100,
         pageSize = Some (if page_size (get_pagination q) = 0 then 50
                          else page_size (get_pagination q)),
         hasMore = Some True,
         nextCursor = Some ''next_page_cursor_abc123''\<rparr>,
      resp_explain = None\<rparr>"

text \<open>
  \<^verbatim>\<open>execute_query\<close>. \<^verbatim>\<open>MessageToDict\<close> belongs to the protobuf library and is the
  parameter \<open>to_dict\<close>; an error it raises passes through the \<^verbatim>\<open>except\<close> clause, which
  prints and re-raises. The method assigns to nothing.
\<close>

definition execute_query ::
  "(response \<Rightarrow> py_error + response) \<Rightarrow> client \<Rightarrow> query \<Rightarrow> py_error + response" where
  "execute_query to_dict c q =
     (if cl_stub c = None then Inl (RuntimeError ''Not connected. Call connect() first.'')
      else to_dict (mock_response q))"

text \<open>
  \<^verbatim>\<open>execute_paginated\<close> is a generator; the model drains it. \<open>exq i\<close> is the answer of
  the \<open>i\<close>-th call of \<^verbatim>\<open>self.execute_query\<close> (the loop makes one call per page, so the
  call number is \<^verbatim>\<open>page\<close>). The result holds the responses yielded in order, how the
  iteration ended, and the caller's Query object as the loop leaves it
  (\<^verbatim>\<open>query.pagination.cursor = cursor\<close> assigns into it).
\<close>

datatype outcome = Done | Raised py_error

record paginated =
  yielded :: "response list"
  ended :: outcome
  final_query :: query

definition set_cursor :: "query \<Rightarrow> string \<Rightarrow> query" where
  "set_cursor q c = q\<lparr>q_pagination := Some ((get_pagination q)\<lparr>pg_cursor := c\<rparr>)\<rparr>"

text \<open>Truthiness of \<^verbatim>\<open>cursor\<close> (\<^verbatim>\<open>None\<close> and the empty string are falsy) and of
  \<^verbatim>\<open>pagination.get('hasMore')\<close>.\<close>

definition truthy_str :: "string option \<Rightarrow> bool" where
  "truthy_str c = (case c of None \<Rightarrow> False | Some s \<Rightarrow> s \<noteq> [])"

definition truthy_bool :: "bool option \<Rightarrow> bool" where
  "truthy_bool h = (case h of None \<Rightarrow> False | Some v \<Rightarrow> v)"

definition empty_page_dict :: page_dict where
  "empty_page_dict = \<lparr>totalCount = None, pageSize = None, hasMore = None, nextCursor = None\<rparr>"

function paginate_loop ::
  "(nat \<Rightarrow> query \<Rightarrow> py_error + response) \<Rightarrow> int \<Rightarrow> int \<Rightarrow> string option \<Rightarrow> query \<Rightarrow>
     response list \<Rightarrow> paginated" where
  "paginate_loop exq max_pages page cur q acc =
     (if page < max_pages then
        (let q1 = (if truthy_str cur then set_cursor q (the cur) else q) in
         case exq (nat page) q1 of
           Inl e \<Rightarrow> \<lparr>yielded = acc, ended = Raised e, final_query = q1\<rparr>
         | Inr r \<Rightarrow>
             (let pg = (case resp_pagination r of None \<Rightarrow> empty_page_dict | Some p \<Rightarrow> p);
                  cur' = nextCursor pg
              in if \<not> truthy_str cur' \<or> \<not> truthy_bool (hasMore pg)
                 then \<lparr>yielded = acc @ [r], ended = Done, final_query = q1\<rparr>
                 else paginate_loop exq max_pages (page + 1) cur' q1 (acc @ [r])))
      else \<lparr>yielded = acc, ended = Done, final_query = q\<rparr>)"
  by pat_completeness auto
termination
  by (relation "measure (\<lambda>(exq, max_pages, page, cur, q, acc). nat (max_pages - page))") auto

definition execute_paginated ::
  "(nat \<Rightarrow> query \<Rightarrow> py_error + response) \<Rightarrow> query \<Rightarrow> int \<Rightarrow> paginated" where
  "execute_paginated exq q max_pages = paginate_loop exq max_pages 0 None q []"

text \<open>\<^verbatim>\<open>explain_query\<close>: the result (or the exception) and the caller's Query object as
  the method leaves it.\<close>

definition explain_query ::
  "(response \<Rightarrow> py_error + response) \<Rightarrow> client \<Rightarrow> query \<Rightarrow> (py_error + json_dict) \<times> query" where
  "explain_query to_dict c q =
     (let q1 = (if \<not> opt_explain (get_options q)
                then q\<lparr>q_options := Some ((get_options q)\<lparr>opt_explain := True\<rparr>)\<rparr>
                else q)
      in (case execute_query to_dict c q1 of
            Inl e \<Rightarrow> Inl e
          | Inr r \<Rightarrow> Inr (case resp_explain r of Some x \<Rightarrow> x | None \<Rightarrow> []),
          q1))"

text \<open>The public methods that change the client, and a client after a sequence of them.\<close>

datatype client_op = Connect | Close

primrec client_step :: "client \<Rightarrow> client_op \<Rightarrow> client" where
  "client_step c Connect = connect c"
| "client_step c Close = close c"

definition client_after :: "client \<Rightarrow> client_op list \<Rightarrow> client" where
  "client_after c ops = foldl client_step c ops"

section \<open>Notions the properties are stated with\<close>

text \<open>
  \<open>fresh c\<close> is the builder a single call \<open>c\<close> leaves when made on a new builder: what
  the call contributes on its own. The predicates name the methods of each group.
\<close>

definition fresh :: "call \<Rightarrow> builder" where
  "fresh c = (case apply_call (QueryBuilder []) c of Inl e \<Rightarrow> QueryBuilder [] | Inr b \<Rightarrow> b)"

definition is_filter_call :: "call \<Rightarrow> bool" where
  "is_filter_call c =
     (case c of
        Filter_eq _ _ \<Rightarrow> True | Filter_ne _ _ \<Rightarrow> True | Filter_lt _ _ \<Rightarrow> True
      | Filter_lte _ _ \<Rightarrow> True | Filter_gt _ _ \<Rightarrow> True | Filter_gte _ _ \<Rightarrow> True
      | Filter_in _ _ \<Rightarrow> True | Filter_not_in _ _ \<Rightarrow> True | Filter_contains _ _ _ \<Rightarrow> True
      | Filter_starts_with _ _ \<Rightarrow> True | Filter_ends_with _ _ \<Rightarrow> True
      | Filter_matches _ _ \<Rightarrow> True | Filter_is_null _ \<Rightarrow> True
      | Filter_is_not_null _ \<Rightarrow> True | Filter_array_contains _ _ \<Rightarrow> True
      | _ \<Rightarrow> False)"

definition is_pagination_call :: "call \<Rightarrow> bool" where
  "is_pagination_call c =
     (case c of Limit _ \<Rightarrow> True | Cursor _ \<Rightarrow> True | Offset _ \<Rightarrow> True | _ \<Rightarrow> False)"

definition is_aggregation_call :: "call \<Rightarrow> bool" where
  "is_aggregation_call c =
     (case c of Group_by _ \<Rightarrow> True | Count _ \<Rightarrow> True | Sum _ _ \<Rightarrow> True | Avg _ _ \<Rightarrow> True
      | Min _ _ \<Rightarrow> True | Max _ _ \<Rightarrow> True | _ \<Rightarrow> False)"

definition is_projection_call :: "call \<Rightarrow> bool" where
  "is_projection_call c = (case c of Include _ \<Rightarrow> True | Exclude _ \<Rightarrow> True | _ \<Rightarrow> False)"

definition is_search_call :: "call \<Rightarrow> bool" where
  "is_search_call c =
     (case c of Search_fulltext _ _ _ \<Rightarrow> True | Search_semantic _ _ _ _ \<Rightarrow> True | _ \<Rightarrow> False)"

definition is_options_call :: "call \<Rightarrow> bool" where
  "is_options_call c =
     (case c of Timeout _ \<Rightarrow> True | Explain _ \<Rightarrow> True | Count_total _ \<Rightarrow> True
      | Consistency _ \<Rightarrow> True | _ \<Rightarrow> False)"

text \<open>Two calls of \<^verbatim>\<open>build\<close> in a row, with nothing between them.\<close>

definition build_twice :: "builder \<Rightarrow> py_error + query \<times> query \<times> builder" where
  "build_twice b =
     (case build b of
        Inl e \<Rightarrow> Inl e
      | Inr (q1, b1) \<Rightarrow>
          (case build b1 of Inl e \<Rightarrow> Inl e | Inr (q2, b2) \<Rightarrow> Inr (q1, q2, b2)))"

section \<open>Properties of the builder\<close>

lemmas method_defs =
  filter_eq_def filter_ne_def filter_lt_def filter_lte_def filter_gt_def filter_gte_def
  filter_in_def filter_not_in_def filter_contains_def filter_starts_with_def
  filter_ends_with_def filter_matches_def filter_is_null_def filter_is_not_null_def
  filter_array_contains_def add_condition_def sort_asc_def sort_desc_def add_sort_def
  include_proj_def exclude_proj_def limit_def cursor_def offset_def search_fulltext_def
  search_semantic_def group_by_def count_agg_def sum_agg_def avg_agg_def min_agg_def
  max_agg_def add_aggregate_def timeout_def explain_def count_total_def consistency_def

lemma build_total: "build b = Inr (fst (projr (build b)), b)"
  by (simp add: build_def Let_def)

lemma build_filter:
  "build b = Inr (q, b') \<Longrightarrow>
   q_filter q = (case b_filters b of [] \<Rightarrow> None | [f] \<Rightarrow> Some f | f # g # fs \<Rightarrow> Some (And (f # g # fs)))"
  by (auto simp: build_def Let_def Query_def split: option.splits list.splits)

lemma build_pagination:
  "build b = Inr (q, b') \<Longrightarrow>
   q_pagination q = (case b_pagination b of Some p \<Rightarrow> Some p
       | None \<Rightarrow> if b_aggregation b = None then Some \<lparr>page_size = 50, pg_cursor = [], pg_offset = 0\<rparr> else None)"
  by (auto simp: build_def Let_def Query_def Pagination_def split: option.splits list.splits)

lemma apply_call_filters:
  "apply_call b c = Inr b' \<Longrightarrow> b_filters b' = b_filters b @ b_filters (fresh c)"
  by (cases c) (auto simp: fresh_def method_defs QueryBuilder_def Let_def split: sum.splits)

lemma fresh_filters_length:
  "apply_call b c = Inr b' \<Longrightarrow> length (b_filters (fresh c)) = (if is_filter_call c then 1 else 0)"
  by (cases c) (auto simp: fresh_def is_filter_call_def method_defs QueryBuilder_def Let_def split: sum.splits)

lemma apply_call_pagination:
  "apply_call b c = Inr b' \<Longrightarrow>
   (b_pagination b' = None) = (b_pagination b = None \<and> \<not> is_pagination_call c)"
  by (cases c) (auto simp: is_pagination_call_def method_defs Let_def split: sum.splits)

lemma apply_call_aggregation:
  "apply_call b c = Inr b' \<Longrightarrow>
   (b_aggregation b' = None) = (b_aggregation b = None \<and> \<not> is_aggregation_call c)"
  by (cases c) (auto simp: is_aggregation_call_def method_defs Let_def split: sum.splits)

lemma apply_call_entity: "apply_call b c = Inr b' \<Longrightarrow> b_entity b' = b_entity b"
  by (cases c) (auto simp: method_defs Let_def split: sum.splits)

lemma run_entity: "run b0 cs = Inr b \<Longrightarrow> b_entity b = b_entity b0"
  by (induction cs arbitrary: b0) (auto split: sum.splits dest: apply_call_entity)

lemma run_filters:
  "run b0 cs = Inr b \<Longrightarrow>
   b_filters b = b_filters b0 @ concat (map (\<lambda>c. b_filters (fresh c)) cs)"
proof (induction cs arbitrary: b0)
  case Nil
  then show ?case by simp
next
  case (Cons c cs)
  from Cons.prems obtain b1 where s: "apply_call b0 c = Inr b1" and r: "run b1 cs = Inr b"
    by (auto split: sum.splits)
  from apply_call_filters [OF s] Cons.IH [OF r]
  show ?case by simp
qed

lemma run_filters_length:
  "run b0 cs = Inr b \<Longrightarrow>
   length (b_filters b) = length (b_filters b0) + length (filter is_filter_call cs)"
proof (induction cs arbitrary: b0)
  case Nil
  then show ?case by simp
next
  case (Cons c cs)
  from Cons.prems obtain b1 where s: "apply_call b0 c = Inr b1" and r: "run b1 cs = Inr b"
    by (auto split: sum.splits)
  have "length (b_filters b1) = length (b_filters b0) + (if is_filter_call c then 1 else 0)"
    using apply_call_filters [OF s] fresh_filters_length [OF s] by simp
  with Cons.IH [OF r] show ?case by simp
qed

lemma run_pagination:
  "run b0 cs = Inr b \<Longrightarrow>
   (b_pagination b = None) = (b_pagination b0 = None \<and> \<not> (\<exists>c \<in> set cs. is_pagination_call c))"
proof (induction cs arbitrary: b0)
  case Nil
  then show ?case by simp
next
  case (Cons c cs)
  from Cons.prems obtain b1 where s: "apply_call b0 c = Inr b1" and r: "run b1 cs = Inr b"
    by (auto split: sum.splits)
  from apply_call_pagination [OF s] Cons.IH [OF r] show ?case by auto
qed

lemma run_aggregation:
  "run b0 cs = Inr b \<Longrightarrow>
   (b_aggregation b = None) = (b_aggregation b0 = None \<and> \<not> (\<exists>c \<in> set cs. is_aggregation_call c))"
proof (induction cs arbitrary: b0)
  case Nil
  then show ?case by simp
next
  case (Cons c cs)
  from Cons.prems obtain b1 where s: "apply_call b0 c = Inr b1" and r: "run b1 cs = Inr b"
    by (auto split: sum.splits)
  from apply_call_aggregation [OF s] Cons.IH [OF r] show ?case by auto
qed

text \<open>
  Claim C1. The filters accumulate in call order, one per filter call, and \<^verbatim>\<open>build\<close>
  leaves \<^verbatim>\<open>Query.filter\<close> absent when there is none, sets it to the filter itself when
  there is exactly one, and to a single And composite over all of them, in call order,
  when there are two or more.
\<close>

theorem build_filter_of_calls:
  assumes "run (QueryBuilder e) cs = Inr b" and "build b = Inr (q, b')"
  shows "b_filters b = concat (map (\<lambda>c. b_filters (fresh c)) cs) \<and>
         length (b_filters b) = length (filter is_filter_call cs) \<and>
         q_filter q =
           (case b_filters b of
              [] \<Rightarrow> None
            | [f] \<Rightarrow> Some f
            | f # g # fs \<Rightarrow> Some (And (f # g # fs)))"
proof -
  have "b_filters (QueryBuilder e) = []" by (simp add: QueryBuilder_def)
  with run_filters [OF assms(1)] run_filters_length [OF assms(1)]
  have "b_filters b = concat (map (\<lambda>c. b_filters (fresh c)) cs)"
    and "length (b_filters b) = length (filter is_filter_call cs)"
    by simp_all
  with build_filter [OF assms(2)] show ?thesis by blast
qed

theorem build_filter_of_calls_witness:
  "\<exists>b q. run (QueryBuilder ''users'')
            [Filter_eq ''status'' (PyStr ''active''), Sort_desc ''created_at'' ''default'',
             Filter_is_null ''deleted_at'', Limit 50] = Inr b \<and>
          build b = Inr (q, b) \<and>
          q_filter q = Some (And
            [Condition \<lparr>cond_field = ''status'', cond_operator = OPERATOR_EQ,
               cond_value = Some (StringValue ''active''), cond_values = [],
               cond_case_sensitive = False\<rparr>,
             Condition \<lparr>cond_field = ''deleted_at'', cond_operator = OPERATOR_IS_NULL,
               cond_value = None, cond_values = [], cond_case_sensitive = False\<rparr>])"
proof -
  let ?cs = "[Filter_eq ''status'' (PyStr ''active''), Sort_desc ''created_at'' ''default'',
             Filter_is_null ''deleted_at'', Limit 50]"
  obtain b where r: "run (QueryBuilder ''users'') ?cs = Inr b"
    by (simp add: method_defs QueryBuilder_def Let_def)
  obtain q where bd: "build b = Inr (q, b)"
    using build_total by blast
  from build_filter_of_calls [OF r bd]
  have "q_filter q = (case concat (map (\<lambda>c. b_filters (fresh c)) ?cs) of
              [] \<Rightarrow> None
            | [f] \<Rightarrow> Some f
            | f # g # fs \<Rightarrow> Some (And (f # g # fs)))"
    by simp
  then have "q_filter q = Some (And
            [Condition \<lparr>cond_field = ''status'', cond_operator = OPERATOR_EQ,
               cond_value = Some (StringValue ''active''), cond_values = [],
               cond_case_sensitive = False\<rparr>,
             Condition \<lparr>cond_field = ''deleted_at'', cond_operator = OPERATOR_IS_NULL,
               cond_value = None, cond_values = [], cond_case_sensitive = False\<rparr>])"
    by (simp add: fresh_def method_defs QueryBuilder_def Let_def)
  with r bd show ?thesis by blast
qed

text \<open>
  Claim C3. When no call set page size, cursor or offset, \<^verbatim>\<open>build\<close> injects the default
  Pagination with page size 50 if no aggregation method was called, and no pagination at
  all if one was; when the caller did set one, the Query carries the caller's Pagination.
\<close>

theorem build_default_pagination:
  assumes "run (QueryBuilder e) cs = Inr b" and "build b = Inr (q, b')"
  shows "q_pagination q =
           (if \<exists>c \<in> set cs. is_pagination_call c then b_pagination b
            else if \<exists>c \<in> set cs. is_aggregation_call c then None
            else Some \<lparr>page_size = 50, pg_cursor = [], pg_offset = 0\<rparr>) \<and>
         ((\<exists>c \<in> set cs. is_pagination_call c) \<longrightarrow> b_pagination b \<noteq> None)"
  using run_pagination [OF assms(1)] run_aggregation [OF assms(1)] build_pagination [OF assms(2)]
  by (auto simp: QueryBuilder_def split: option.splits)

theorem build_default_pagination_witness:
  "\<exists>b q. run (QueryBuilder ''orders'') [Filter_eq ''status'' (PyStr ''completed''),
             Sort_desc ''created_at'' ''last''] = Inr b \<and>
          build b = Inr (q, b) \<and>
          q_pagination q = Some \<lparr>page_size = 50, pg_cursor = [], pg_offset = 0\<rparr>"
proof -
  let ?cs = "[Filter_eq ''status'' (PyStr ''completed''), Sort_desc ''created_at'' ''last'']"
  obtain b where r: "run (QueryBuilder ''orders'') ?cs = Inr b"
    by (simp add: method_defs QueryBuilder_def Let_def)
  obtain q where bd: "build b = Inr (q, b)"
    using build_total by blast
  from build_default_pagination [OF r bd]
  have "q_pagination q = Some \<lparr>page_size = 50, pg_cursor = [], pg_offset = 0\<rparr>"
    by (simp add: is_pagination_call_def is_aggregation_call_def)
  with r bd show ?thesis by blast
qed

text \<open>
  Claim C4. \<^verbatim>\<open>build\<close> is idempotent: for every builder state, two calls in a row both
  succeed, return equal Query values and leave the builder as it was.
\<close>

theorem build_idempotent: "\<exists>q. build_twice b = Inr (q, q, b)"
  by (simp add: build_twice_def build_def Let_def)

text \<open>
  Claim C6 says that \<^verbatim>\<open>build\<close> fails for a builder constructed with the empty entity
  name. The source validates nothing: \<^verbatim>\<open>QueryBuilder("").build()\<close> returns a Query whose
  entity is the empty string.
\<close>

theorem build_empty_entity_counterexample:
  "build (QueryBuilder []) =
     Inr (\<lparr>q_entity = [], q_filter = None, q_sort = [], q_projection = None,
           q_pagination = Some \<lparr>page_size = 50, pg_cursor = [], pg_offset = 0\<rparr>,
           q_aggregation = None, q_search = None, q_relation = [], q_options = None\<rparr>,
          QueryBuilder [])"
  by (simp add: build_def QueryBuilder_def Query_def Pagination_def Let_def)

text \<open>
  Claim C6, amended. For every entity name, the empty one included, and every chain of
  calls that did not raise, \<^verbatim>\<open>build\<close> returns a Query carrying that entity name; it
  never fails.
\<close>

theorem build_never_fails:
  assumes "run (QueryBuilder e) cs = Inr b"
  shows "\<exists>q. build b = Inr (q, b) \<and> q_entity q = e"
proof -
  from run_entity [OF assms] have "b_entity b = e" by (simp add: QueryBuilder_def)
  then show ?thesis by (simp add: build_def Let_def Query_def split: option.splits)
qed

theorem build_never_fails_witness:
  "run (QueryBuilder []) [Limit 10] = Inr (limit (QueryBuilder []) 10) \<and>
   (\<exists>q. build (limit (QueryBuilder []) 10) = Inr (q, limit (QueryBuilder []) 10) \<and> q_entity q = [])"
proof -
  have r: "run (QueryBuilder []) [Limit 10] = Inr (limit (QueryBuilder []) 10)" by simp
  from build_never_fails [OF r] r show ?thesis by blast
qed

end
